theory Spec2Isabelle
  imports Main
begin

section \<open>DynUNet: construction and forward evaluation\<close>

text \<open>
  A shallow embedding of \<^verbatim>\<open>monai/networks/nets/dynunet.py\<close>: the constructor
  \<^verbatim>\<open>DynUNet.__init__\<close> with its checks and block builders, the recursive
  \<^verbatim>\<open>create_skips\<close>, \<^verbatim>\<open>DynUNetSkipLayer.forward\<close> and
  \<^verbatim>\<open>DynUNet.forward\<close>.

  The convolution blocks (\<^verbatim>\<open>monai.networks.blocks.dynunet_block\<close>) and the
  tensor operations of torch are not part of the file. A block is modelled by the arguments
  its constructor receives; what a block computes, \<^verbatim>\<open>interpolate\<close>,
  \<^verbatim>\<open>torch.stack\<close> and \<^verbatim>\<open>torch.empty(1)\<close> are parameters of the
  forward functions (a record of operations on an arbitrary tensor type).
  \<^verbatim>\<open>self.apply(self.initialize_weights)\<close> only changes weight values and is left out.
\<close>

subsection \<open>Data model\<close>

text \<open>An entry of \<^verbatim>\<open>kernel_size\<close>, \<^verbatim>\<open>strides\<close> or
  \<^verbatim>\<open>output_paddings\<close>: \<^verbatim>\<open>Union[Sequence[int], int]\<close>.\<close>

datatype size_spec = Scalar int | Tuple "int list"

text \<open>The arguments of \<^verbatim>\<open>DynUNet.__init__\<close>. \<^verbatim>\<open>norm_name\<close>,
  \<^verbatim>\<open>act_name\<close>, \<^verbatim>\<open>dropout\<close> and \<^verbatim>\<open>pool_type\<close> are only handed
  on to the block constructors.\<close>

record net_spec =
  spatial_dims :: int
  in_channels :: int
  cls_out_channels :: int
  seg_out_channels :: int
  kernel_size :: "size_spec list"
  strides :: "size_spec list"
  output_paddings :: "size_spec list"
  filters :: "int list option"
  dropout :: "string option"
  norm_name :: string
  act_name :: string
  deep_supr_num :: int
  res_block :: bool
  trans_bias :: bool
  pool_type :: string
  pool_fmap :: int

text \<open>A block is the record of its constructor call. The arguments are, in order:
  spatial_dims, in_channels, out_channels, kernel_size, stride, norm_name, act_name, dropout
  (and output_padding, trans_bias for the up block); spatial_dims, in_channels, out_channels,
  dropout for the output block; spatial_dims, in_channels, out_channels, pool_type, pool_fmap
  for the classification block.\<close>

datatype block =
    UnetBasicBlock int int int size_spec size_spec string string "string option"
  | UnetResBlock int int int size_spec size_spec string string "string option"
  | UnetUpBlock int int int size_spec size_spec string string "string option" size_spec bool
  | UnetOutBlock int int int "string option"
  | UNetClsOutBlock int int int string int

text \<open>Every exception the constructor and the forward pass can raise. All but
  \<open>IndexError\<close> are \<^verbatim>\<open>ValueError\<close> in the source, told apart by their message:
  \<open>InsufficientFilters\<close> is raised by \<^verbatim>\<open>check_filters\<close>,
  \<open>DeepSupervisionRangeError\<close> by \<^verbatim>\<open>get_deep_supervision_heads\<close>,
  \<open>LengthMismatch\<close>, \<open>KernelShapeError idx\<close> and \<open>StrideShapeError idx\<close> by
  \<^verbatim>\<open>check_kernel_stride\<close>, \<open>StructureMismatch m n\<close> by \<^verbatim>\<open>create_skips\<close>,
  \<open>UnpackError\<close> by a tuple assignment whose right-hand side does not have two items.\<close>

datatype error =
    InsufficientFilters
  | DeepSupervisionRangeError
  | LengthMismatch
  | KernelShapeError nat
  | StrideShapeError nat
  | StructureMismatch nat nat
  | IndexError
  | UnpackError

subsection \<open>Python sequences\<close>

text \<open>\<^verbatim>\<open>xs[i]\<close>: a negative index counts from the end, an index out of range raises.\<close>

definition py_index :: "'a list \<Rightarrow> int \<Rightarrow> error + 'a" where
  "py_index xs i =
     (if 0 \<le> i \<and> i < int (length xs) then Inr (xs ! nat i)
      else if - int (length xs) \<le> i \<and> i < 0 then Inr (xs ! nat (int (length xs) + i))
      else Inl IndexError)"

text \<open>\<^verbatim>\<open>xs[i] = v\<close>, with the same index rule.\<close>

definition py_setitem :: "'a list \<Rightarrow> int \<Rightarrow> 'a \<Rightarrow> error + 'a list" where
  "py_setitem xs i v =
     (if 0 \<le> i \<and> i < int (length xs) then Inr (xs[nat i := v])
      else if - int (length xs) \<le> i \<and> i < 0 then Inr (xs[nat (int (length xs) + i) := v])
      else Inl IndexError)"

text \<open>The slices the source takes: \<^verbatim>\<open>xs[:-1]\<close>, \<^verbatim>\<open>xs[:-2]\<close>,
  \<^verbatim>\<open>xs[1:-1]\<close>, \<^verbatim>\<open>xs[1:]\<close>. A slice never raises.\<close>

definition slice_to_m1 :: "'a list \<Rightarrow> 'a list" where
  "slice_to_m1 xs = take (length xs - 1) xs"

definition slice_to_m2 :: "'a list \<Rightarrow> 'a list" where
  "slice_to_m2 xs = take (length xs - 2) xs"

definition slice_1_to_m1 :: "'a list \<Rightarrow> 'a list" where
  "slice_1_to_m1 xs = drop 1 (take (length xs - 1) xs)"

definition slice_from_1 :: "'a list \<Rightarrow> 'a list" where
  "slice_from_1 xs = drop 1 xs"

subsection \<open>Filter, kernel and stride checks\<close>

text \<open>Lines 163-166: the filter counts when \<^verbatim>\<open>filters\<close> is \<^verbatim>\<open>None\<close>.\<close>

definition default_filters :: "net_spec \<Rightarrow> int list" where
  "default_filters s =
     map (\<lambda>i. min (2 ^ (5 + i)) (if spatial_dims s = 3 then 320 else 512))
       [0 ..< length (strides s)]"

definition init_filters :: "net_spec \<Rightarrow> int list" where
  "init_filters s = (case filters s of None \<Rightarrow> default_filters s | Some fs \<Rightarrow> fs)"

text \<open>\<^verbatim>\<open>check_filters\<close>: the argument is the current \<^verbatim>\<open>self.filters\<close>, the
  result its new value.\<close>

definition check_filters :: "net_spec \<Rightarrow> int list \<Rightarrow> error + int list" where
  "check_filters s fs =
     (if length fs < length (strides s) then Inl InsufficientFilters
      else Inr (take (length (strides s)) fs))"

text \<open>One test of the loop body: the entry is not an int and its length differs from
  \<^verbatim>\<open>spatial_dims\<close>.\<close>

definition wrong_length :: "int \<Rightarrow> size_spec \<Rightarrow> bool" where
  "wrong_length sd e = (case e of Scalar _ \<Rightarrow> False | Tuple t \<Rightarrow> int (length t) \<noteq> sd)"

text \<open>The loop of \<^verbatim>\<open>check_kernel_stride\<close> over \<^verbatim>\<open>enumerate(kernels)\<close>,
  from position \<open>idx\<close> on; \<^verbatim>\<open>strides[idx]\<close> is read at every round, before the
  kernel entry is tested.\<close>

fun check_entries :: "int \<Rightarrow> size_spec list \<Rightarrow> nat \<Rightarrow> size_spec list \<Rightarrow> error + unit" where
  "check_entries sd sts idx [] = Inr ()"
| "check_entries sd sts idx (k_i # ks) =
     (case py_index sts (int idx) of
        Inl e \<Rightarrow> Inl e
      | Inr stride \<Rightarrow>
          if wrong_length sd k_i then Inl (KernelShapeError idx)
          else if wrong_length sd stride then Inl (StrideShapeError idx)
          else check_entries sd sts (Suc idx) ks)"

definition check_kernel_stride :: "net_spec \<Rightarrow> error + unit" where
  "check_kernel_stride s =
     (if length (kernel_size s) \<noteq> length (strides s) \<or> length (kernel_size s) < 3
      then Inl LengthMismatch
      else check_entries (spatial_dims s) (strides s) 0 (kernel_size s))"

subsection \<open>Building blocks, with the trace of what has been instantiated\<close>

text \<open>A step of the constructor yields the blocks it has instantiated, in order, and either
  the exception it raised or its value. Sequencing stops at the first exception and keeps
  the blocks instantiated so far.\<close>

type_synonym 'a build = "block list \<times> (error + 'a)"

definition ret :: "'a \<Rightarrow> 'a build" where
  "ret x = ([], Inr x)"

definition lift :: "error + 'a \<Rightarrow> 'a build" where
  "lift r = ([], r)"

definition new_block :: "block \<Rightarrow> block build" where
  "new_block b = ([b], Inr b)"

definition and_then :: "'a build \<Rightarrow> ('a \<Rightarrow> 'b build) \<Rightarrow> 'b build" where
  "and_then m f =
     (case snd m of
        Inl e \<Rightarrow> (fst m, Inl e)
      | Inr x \<Rightarrow> (fst m @ fst (f x), snd (f x)))"

text \<open>A list comprehension whose element expression may raise.\<close>

fun build_each :: "('a \<Rightarrow> 'b build) \<Rightarrow> 'a list \<Rightarrow> 'b list build" where
  "build_each f [] = ret []"
| "build_each f (x # xs) =
     and_then (f x) (\<lambda>y. and_then (build_each f xs) (\<lambda>ys. ret (y # ys)))"

text \<open>\<^verbatim>\<open>self.conv_block\<close> (line 160).\<close>

definition conv_block ::
  "net_spec \<Rightarrow> int \<Rightarrow> int \<Rightarrow> int \<Rightarrow> size_spec \<Rightarrow> size_spec \<Rightarrow> string \<Rightarrow> string \<Rightarrow> string option \<Rightarrow> block"
  where
  "conv_block s = (if res_block s then UnetResBlock else UnetBasicBlock)"

text \<open>In the builders, \<open>fs\<close> is the value of \<^verbatim>\<open>self.filters\<close> after
  \<^verbatim>\<open>check_filters\<close>.\<close>

definition get_input_block :: "net_spec \<Rightarrow> int list \<Rightarrow> block build" where
  "get_input_block s fs =
     and_then (lift (py_index fs 0)) (\<lambda>f0.
     and_then (lift (py_index (kernel_size s) 0)) (\<lambda>k0.
     and_then (lift (py_index (strides s) 0)) (\<lambda>s0.
     new_block (conv_block s (spatial_dims s) (in_channels s) f0 k0 s0
                  (norm_name s) (act_name s) (dropout s)))))"

definition get_bottleneck :: "net_spec \<Rightarrow> int list \<Rightarrow> block build" where
  "get_bottleneck s fs =
     and_then (lift (py_index fs (- 2))) (\<lambda>f2.
     and_then (lift (py_index fs (- 1))) (\<lambda>f1.
     and_then (lift (py_index (kernel_size s) (- 1))) (\<lambda>k1.
     and_then (lift (py_index (strides s) (- 1))) (\<lambda>s1.
     new_block (conv_block s (spatial_dims s) f2 f1 k1 s1
                  (norm_name s) (act_name s) (dropout s))))))"

definition get_cls_output_block :: "net_spec \<Rightarrow> int list \<Rightarrow> int \<Rightarrow> block build" where
  "get_cls_output_block s fs idx =
     and_then (lift (py_index fs idx)) (\<lambda>f.
     new_block (UNetClsOutBlock (spatial_dims s) f (cls_out_channels s) (pool_type s) (pool_fmap s)))"

definition get_seg_output_block :: "net_spec \<Rightarrow> int list \<Rightarrow> int \<Rightarrow> block build" where
  "get_seg_output_block s fs idx =
     and_then (lift (py_index fs idx)) (\<lambda>f.
     new_block (UnetOutBlock (spatial_dims s) f (seg_out_channels s) (dropout s)))"

text \<open>\<^verbatim>\<open>get_module_list\<close>, the branch \<^verbatim>\<open>upsample=False\<close>: one block for every
  position of the shortest of the four sequences (\<^verbatim>\<open>zip\<close>).\<close>

definition get_module_list ::
  "net_spec \<Rightarrow> int list \<Rightarrow> int list \<Rightarrow> size_spec list \<Rightarrow> size_spec list \<Rightarrow>
   (int \<Rightarrow> int \<Rightarrow> int \<Rightarrow> size_spec \<Rightarrow> size_spec \<Rightarrow> string \<Rightarrow> string \<Rightarrow> string option \<Rightarrow> block) \<Rightarrow>
   block list build" where
  "get_module_list s in_chs out_chs ks sts cb =
     build_each
       (\<lambda>(in_c, out_c, k, stride).
          new_block (cb (spatial_dims s) in_c out_c k stride (norm_name s) (act_name s) (dropout s)))
       (zip in_chs (zip out_chs (zip ks sts)))"

text \<open>\<^verbatim>\<open>get_module_list\<close>, the branch \<^verbatim>\<open>upsample=True\<close>, where
  \<^verbatim>\<open>conv_block\<close> is \<^verbatim>\<open>UnetUpBlock\<close> and \<^verbatim>\<open>output_paddings\<close> is a fifth
  sequence of the \<^verbatim>\<open>zip\<close>.\<close>

definition get_module_list_up ::
  "net_spec \<Rightarrow> int list \<Rightarrow> int list \<Rightarrow> size_spec list \<Rightarrow> size_spec list \<Rightarrow>
   size_spec list \<Rightarrow> bool \<Rightarrow> block list build" where
  "get_module_list_up s in_chs out_chs ks sts ops tb =
     build_each
       (\<lambda>(in_c, out_c, k, stride, output_padding).
          new_block (UnetUpBlock (spatial_dims s) in_c out_c k stride (norm_name s) (act_name s)
                       (dropout s) output_padding tb))
       (zip in_chs (zip out_chs (zip ks (zip sts ops))))"

definition get_downsamples :: "net_spec \<Rightarrow> int list \<Rightarrow> block list build" where
  "get_downsamples s fs =
     get_module_list s (slice_to_m2 fs) (slice_1_to_m1 fs)
       (slice_1_to_m1 (kernel_size s)) (slice_1_to_m1 (strides s)) (conv_block s)"

definition get_upsamples :: "net_spec \<Rightarrow> int list \<Rightarrow> block list build" where
  "get_upsamples s fs =
     get_module_list_up s (slice_to_m1 (rev fs)) (slice_from_1 (rev fs))
       (slice_to_m1 (rev (kernel_size s))) (slice_to_m1 (rev (strides s)))
       (rev (output_paddings s)) (trans_bias s)"

definition get_deep_supervision_heads :: "net_spec \<Rightarrow> int list \<Rightarrow> block list build" where
  "get_deep_supervision_heads s fs =
     (let num_up_layers = int (length (strides s)) - 1
      in if deep_supr_num s \<ge> num_up_layers then lift (Inl DeepSupervisionRangeError)
         else build_each (\<lambda>i. get_seg_output_block s fs (int i + 1)) [0 ..< nat (deep_supr_num s)])"

subsection \<open>The chain of skip layers\<close>

text \<open>A \<^verbatim>\<open>DynUNetSkipLayer\<close> with its fields index, downsample, upsample, next_layer and
  super_head, or the bottleneck block that ends the chain. The field \<^verbatim>\<open>heads\<close> is in
  every layer the one list object \<^verbatim>\<open>self.heads\<close> of the network, so the model keeps
  that list once, in the network.\<close>

datatype skip =
    Bottleneck block
  | SkipLayer int block block skip "block option"

function create_skips ::
  "int \<Rightarrow> block list \<Rightarrow> block list \<Rightarrow> block \<Rightarrow> block list \<Rightarrow> error + skip" where
  "create_skips index dns ups bottleneck super_heads =
     (if length dns \<noteq> length ups then Inl (StructureMismatch (length dns) (length ups))
      else if length dns = 0 then Inr (Bottleneck bottleneck)
      else
        let (cur_super_head, super_heads') =
              (if index > 0 \<and> length super_heads > 0
               then (Some (hd super_heads), slice_from_1 super_heads)
               else (None, super_heads))
        in case create_skips (1 + index) (slice_from_1 dns) (slice_from_1 ups) bottleneck super_heads' of
             Inl e \<Rightarrow> Inl e
           | Inr next_layer \<Rightarrow> Inr (SkipLayer index (hd dns) (hd ups) next_layer cur_super_head))"
  by pat_completeness auto
termination
  by (relation "measure (\<lambda>(index, dns, ups, bottleneck, super_heads). length dns)")
     (auto simp: slice_from_1_def)

declare create_skips.simps [simp del]

subsection \<open>The network\<close>

text \<open>The operations on tensors that the source takes from torch and from the block library:
  calling a block on one tensor, calling an up block on two, \<^verbatim>\<open>interpolate(t, size)\<close>,
  \<^verbatim>\<open>torch.stack(ts, dim=1)\<close>, \<^verbatim>\<open>t.shape\<close>, \<^verbatim>\<open>torch.empty(1)\<close>, and
  the tuple assignment \<^verbatim>\<open>a, b = t\<close> of one tensor (\<open>None\<close> when \<open>t\<close> does not have
  two items along its first axis).\<close>

record 't tensor_ops =
  run_block :: "block \<Rightarrow> 't \<Rightarrow> 't"
  run_up :: "block \<Rightarrow> 't \<Rightarrow> 't \<Rightarrow> 't"
  interpolate :: "'t \<Rightarrow> nat list \<Rightarrow> 't"
  stack_dim1 :: "'t list \<Rightarrow> 't"
  shape :: "'t \<Rightarrow> nat list"
  empty1 :: 't
  unpack2 :: "'t \<Rightarrow> ('t \<times> 't) option"

text \<open>The attributes of a \<^verbatim>\<open>DynUNet\<close> that the claims read. \<open>self_filters\<close> and
  \<open>self_deep_supr_num\<close> are \<^verbatim>\<open>self.filters\<close> and \<^verbatim>\<open>self.deep_supr_num\<close>;
  \<open>training\<close> is the flag of \<^verbatim>\<open>nn.Module\<close>, set by its constructor.\<close>

record 't dynunet =
  self_filters :: "int list"
  input_block :: block
  downsamples :: "block list"
  bottleneck_block :: block
  upsamples :: "block list"
  cls_output_block :: block
  seg_output_block :: block
  self_deep_supr_num :: int
  heads :: "'t list"
  deep_supervision_heads :: "block list"
  skip_layers :: skip
  training :: bool

definition DynUNet_init :: "'t tensor_ops \<Rightarrow> net_spec \<Rightarrow> 't dynunet build" where
  "DynUNet_init ops s =
     and_then (lift (check_filters s (init_filters s))) (\<lambda>fs.
     and_then (get_input_block s fs) (\<lambda>inp.
     and_then (get_downsamples s fs) (\<lambda>dns.
     and_then (get_bottleneck s fs) (\<lambda>bott.
     and_then (get_upsamples s fs) (\<lambda>ups.
     and_then (get_cls_output_block s fs (- 1)) (\<lambda>cls.
     and_then (get_seg_output_block s fs 0) (\<lambda>seg.
     and_then (get_deep_supervision_heads s fs) (\<lambda>dsh.
     and_then (lift (check_kernel_stride s)) (\<lambda>_.
     and_then (lift (create_skips 0 (inp # dns) (rev ups) bott dsh)) (\<lambda>skips.
     ret \<lparr> self_filters = fs, input_block = inp, downsamples = dns, bottleneck_block = bott,
           upsamples = ups, cls_output_block = cls, seg_output_block = seg,
           self_deep_supr_num = deep_supr_num s,
           heads = replicate (nat (deep_supr_num s)) (empty1 ops),
           deep_supervision_heads = dsh, skip_layers = skips, training = True \<rparr>))))))))))"

subsection \<open>Forward evaluation\<close>

text \<open>\<^verbatim>\<open>DynUNetSkipLayer.forward\<close>, with the shared list \<^verbatim>\<open>heads\<close> passed in and
  returned. The first equation is the \<^verbatim>\<open>else\<close> branch of the \<^verbatim>\<open>isinstance\<close>
  test in the layer above: the next layer is a plain block and its one output is both
  \<^verbatim>\<open>bottleneck_out\<close> and \<^verbatim>\<open>next_out\<close>.\<close>

fun skip_forward ::
  "'t tensor_ops \<Rightarrow> skip \<Rightarrow> 't \<Rightarrow> 't list \<Rightarrow> error + (('t \<times> 't) \<times> 't list)" where
  "skip_forward ops (Bottleneck b) x hs = (let y = run_block ops b x in Inr ((y, y), hs))"
| "skip_forward ops (SkipLayer index downsample upsample next_layer super_head) x hs =
     (let down_out = run_block ops downsample x
      in case skip_forward ops next_layer down_out hs of
           Inl e \<Rightarrow> Inl e
         | Inr ((bottleneck_out, next_out), hs1) \<Rightarrow>
             let up_out = run_up ops upsample next_out down_out
             in (case super_head of
                   None \<Rightarrow> Inr ((bottleneck_out, up_out), hs1)
                 | Some h \<Rightarrow>
                     if index > 0
                     then (case py_setitem hs1 (index - 1) (run_block ops h up_out) of
                             Inl e \<Rightarrow> Inl e
                           | Inr hs2 \<Rightarrow> Inr ((bottleneck_out, up_out), hs2))
                     else Inr ((bottleneck_out, up_out), hs1)))"

text \<open>The call \<^verbatim>\<open>self.skip_layers(x)\<close> with the tuple assignment of its result (line
  255). A skip layer returns a pair; a bare block returns one tensor, which the assignment
  takes apart.\<close>

definition call_skip_layers ::
  "'t tensor_ops \<Rightarrow> skip \<Rightarrow> 't \<Rightarrow> 't list \<Rightarrow> error + (('t \<times> 't) \<times> 't list)" where
  "call_skip_layers ops root x hs =
     (case root of
        Bottleneck b \<Rightarrow>
          (case unpack2 ops (run_block ops b x) of
             None \<Rightarrow> Inl UnpackError
           | Some p \<Rightarrow> Inr (p, hs))
      | SkipLayer index downsample upsample next_layer super_head \<Rightarrow> skip_forward ops root x hs)"

text \<open>\<^verbatim>\<open>DynUNet.forward\<close>: the outputs \<^verbatim>\<open>(cls_out, seg_out)\<close> and the network
  with its head buffer as the pass left it.\<close>

definition forward ::
  "'t tensor_ops \<Rightarrow> 't dynunet \<Rightarrow> 't \<Rightarrow> error + (('t \<times> 't) \<times> 't dynunet)" where
  "forward ops net x =
     (case call_skip_layers ops (skip_layers net) x (heads net) of
        Inl e \<Rightarrow> Inl e
      | Inr ((bottleneck_out, up_out), hs') \<Rightarrow>
          let cls_out = run_block ops (cls_output_block net) bottleneck_out;
              seg_out = run_block ops (seg_output_block net) up_out;
              seg_out' =
                (if training net
                 then stack_dim1 ops
                        (seg_out # map (\<lambda>feature_map.
                           interpolate ops feature_map (drop 2 (shape ops seg_out))) hs')
                 else seg_out)
          in Inr ((cls_out, seg_out'), net\<lparr>heads := hs'\<rparr>))"

subsection \<open>Reading a chain of skip layers\<close>

text \<open>The number of \<^verbatim>\<open>DynUNetSkipLayer\<close> nodes of a chain, the block at its end, and the
  fields of its layers from the outermost layer down.\<close>

fun chain_length :: "skip \<Rightarrow> nat" where
  "chain_length (Bottleneck b) = 0"
| "chain_length (SkipLayer index downsample upsample next_layer super_head) =
     Suc (chain_length next_layer)"

fun chain_leaf :: "skip \<Rightarrow> block" where
  "chain_leaf (Bottleneck b) = b"
| "chain_leaf (SkipLayer index downsample upsample next_layer super_head) = chain_leaf next_layer"

fun chain_indices :: "skip \<Rightarrow> int list" where
  "chain_indices (Bottleneck b) = []"
| "chain_indices (SkipLayer index downsample upsample next_layer super_head) =
     index # chain_indices next_layer"

fun chain_heads :: "skip \<Rightarrow> block option list" where
  "chain_heads (Bottleneck b) = []"
| "chain_heads (SkipLayer index downsample upsample next_layer super_head) =
     super_head # chain_heads next_layer"

fun chain_downsamples :: "skip \<Rightarrow> block list" where
  "chain_downsamples (Bottleneck b) = []"
| "chain_downsamples (SkipLayer index downsample upsample next_layer super_head) =
     downsample # chain_downsamples next_layer"

fun chain_upsamples :: "skip \<Rightarrow> block list" where
  "chain_upsamples (Bottleneck b) = []"
| "chain_upsamples (SkipLayer index downsample upsample next_layer super_head) =
     upsample # chain_upsamples next_layer"

subsection \<open>The tensors of one forward pass\<close>

text \<open>The tensor that reaches the bottleneck block: the input taken through the downsample
  blocks of all layers.\<close>

fun leaf_input :: "'t tensor_ops \<Rightarrow> skip \<Rightarrow> 't \<Rightarrow> 't" where
  "leaf_input ops (Bottleneck b) x = x"
| "leaf_input ops (SkipLayer index downsample upsample next_layer super_head) x =
     leaf_input ops next_layer (run_block ops downsample x)"

text \<open>The pair \<^verbatim>\<open>(bottleneck_out, up_out)\<close> that a layer computes from its input, read
  off the layer without the head buffer.\<close>

fun skip_outputs :: "'t tensor_ops \<Rightarrow> skip \<Rightarrow> 't \<Rightarrow> 't \<times> 't" where
  "skip_outputs ops (Bottleneck b) x = (run_block ops b x, run_block ops b x)"
| "skip_outputs ops (SkipLayer index downsample upsample next_layer super_head) x =
     (let down_out = run_block ops downsample x;
          r = skip_outputs ops next_layer down_out
      in (fst r, run_up ops upsample (snd r) down_out))"

text \<open>\<^verbatim>\<open>up_out\<close> of the layer \<open>l\<close> levels below the root, when the root receives \<open>x\<close>.\<close>

fun up_out_at :: "'t tensor_ops \<Rightarrow> skip \<Rightarrow> 't \<Rightarrow> nat \<Rightarrow> 't" where
  "up_out_at ops (Bottleneck b) x l = run_block ops b x"
| "up_out_at ops (SkipLayer index downsample upsample next_layer super_head) x 0 =
     snd (skip_outputs ops (SkipLayer index downsample upsample next_layer super_head) x)"
| "up_out_at ops (SkipLayer index downsample upsample next_layer super_head) x (Suc l) =
     up_out_at ops next_layer (run_block ops downsample x) l"

text \<open>The positions \<^verbatim>\<open>self.index - 1\<close> of the head buffer that the layers of a chain
  assign to: one for every layer that passes the test of line 54.\<close>

fun write_slots :: "skip \<Rightarrow> int list" where
  "write_slots (Bottleneck b) = []"
| "write_slots (SkipLayer index downsample upsample next_layer super_head) =
     (if super_head \<noteq> None \<and> index > 0 then [index - 1] else []) @ write_slots next_layer"

subsection \<open>The invariants the specification states for a network spec\<close>

text \<open>Section 3 of the specification: kernel_size and strides have the same length, at least
  3; every entry that is not a scalar has \<^verbatim>\<open>spatial_dims\<close> components; there are at least
  as many filters as strides (always so when the filters are derived); and
  \<open>0 < deep_supr_num < len(strides) - 1\<close>.\<close>

definition spec_invariants :: "net_spec \<Rightarrow> bool" where
  "spec_invariants s \<longleftrightarrow>
     length (kernel_size s) = length (strides s) \<and> 3 \<le> length (strides s) \<and>
     list_all (\<lambda>k. \<not> wrong_length (spatial_dims s) k) (kernel_size s) \<and>
     list_all (\<lambda>k. \<not> wrong_length (spatial_dims s) k) (strides s) \<and>
     length (strides s) \<le> length (init_filters s) \<and>
     0 < deep_supr_num s \<and> deep_supr_num s < int (length (strides s)) - 1"

subsection \<open>Examples\<close>

text \<open>An interpretation of the tensor operations in which a tensor is its shape: a block
  keeps the batch size and sets the channel count, a strided block divides the spatial sizes, an
  up block returns the spatial sizes of the skip tensor, \<open>interpolate\<close> keeps batch and
  channels, \<open>stack\<close> adds an axis at position 1.\<close>

definition strided :: "size_spec \<Rightarrow> nat list \<Rightarrow> nat list" where
  "strided st sp =
     (case st of
        Scalar k \<Rightarrow> map (\<lambda>d. d div nat k) sp
      | Tuple ks \<Rightarrow> map (\<lambda>(d, k). d div nat k) (zip sp ks))"

definition shape_model :: "nat list tensor_ops" where
  "shape_model =
     \<lparr> run_block = (\<lambda>b x. case b of
          UnetBasicBlock sd i out k st nm ac dr \<Rightarrow> hd x # nat out # strided st (drop 2 x)
        | UnetResBlock sd i out k st nm ac dr \<Rightarrow> hd x # nat out # strided st (drop 2 x)
        | UnetUpBlock sd i out k st nm ac dr op tb \<Rightarrow> hd x # nat out # drop 2 x
        | UnetOutBlock sd i out dr \<Rightarrow> hd x # nat out # drop 2 x
        | UNetClsOutBlock sd i out pt pf \<Rightarrow> [hd x, nat out]),
       run_up = (\<lambda>b x skp. case b of
          UnetUpBlock sd i out k st nm ac dr op tb \<Rightarrow> hd x # nat out # drop 2 skp
        | _ \<Rightarrow> x),
       interpolate = (\<lambda>t sz. take 2 t @ sz),
       stack_dim1 = (\<lambda>ts. case ts of [] \<Rightarrow> [] | t # _ \<Rightarrow> hd t # length ts # tl t),
       shape = (\<lambda>t. t),
       empty1 = [1],
       unpack2 = (\<lambda>t. None) \<rparr>"

text \<open>A 3-D network of four stages with two supervision heads and derived filters.\<close>

definition example_spec :: net_spec where
  "example_spec =
     \<lparr> spatial_dims = 3, in_channels = 1, cls_out_channels = 2, seg_out_channels = 3,
       kernel_size = [Scalar 3, Scalar 3, Tuple [3, 3, 3], Scalar 3],
       strides = [Scalar 1, Scalar 2, Tuple [2, 2, 2], Scalar 2],
       output_paddings = [Scalar 0, Scalar 0, Scalar 0],
       filters = None, dropout = None, norm_name = ''INSTANCE'', act_name = ''leakyrelu'',
       deep_supr_num = 2, res_block = False, trans_bias = False,
       pool_type = ''max'', pool_fmap = 2 \<rparr>"

text \<open>The same network with a kernel_size of two entries, with no output paddings, and with
  \<^verbatim>\<open>deep_supr_num=0\<close>.\<close>

definition short_kernel_spec :: net_spec where
  "short_kernel_spec = example_spec\<lparr>kernel_size := [Scalar 3, Scalar 3]\<rparr>"

definition no_padding_spec :: net_spec where
  "no_padding_spec = example_spec\<lparr>output_paddings := []\<rparr>"

definition zero_heads_spec :: net_spec where
  "zero_heads_spec = example_spec\<lparr>deep_supr_num := 0\<rparr>"

section \<open>Properties\<close>

subsection \<open>Sequencing and indexing\<close>

lemma snd_and_then_Inr:
  "snd (and_then m f) = Inr y \<longleftrightarrow> (\<exists>x. snd m = Inr x \<and> snd (f x) = Inr y)"
  by (cases "snd m") (auto simp: and_then_def)

lemma snd_lift [simp]: "snd (lift r) = r"
  by (simp add: lift_def)

lemma fst_lift [simp]: "fst (lift r) = []"
  by (simp add: lift_def)

lemma snd_ret [simp]: "snd (ret x) = Inr x"
  by (simp add: ret_def)

lemma fst_ret [simp]: "fst (ret x) = []"
  by (simp add: ret_def)

lemma snd_new_block [simp]: "snd (new_block b) = Inr b"
  by (simp add: new_block_def)

lemma fst_new_block [simp]: "fst (new_block b) = [b]"
  by (simp add: new_block_def)

lemma and_then_lift_Inr [simp]: "and_then (lift (Inr x)) f = f x"
  by (simp add: and_then_def lift_def)

lemma and_then_lift_Inl [simp]: "and_then (lift (Inl e)) f = ([], Inl e)"
  by (simp add: and_then_def lift_def)

lemma and_then_Inr [simp]: "and_then (tr, Inr x) f = (tr @ fst (f x), snd (f x))"
  by (simp add: and_then_def)

lemma and_then_Inl [simp]: "and_then (tr, Inl e) f = (tr, Inl e)"
  by (simp add: and_then_def)

lemma build_each_new_block:
  "(\<And>x. x \<in> set xs \<Longrightarrow> f x = new_block (g x)) \<Longrightarrow> build_each f xs = (map g xs, Inr (map g xs))"
  by (induction xs) (simp_all add: ret_def new_block_def)

lemma py_index_nat: "i < length xs \<Longrightarrow> py_index xs (int i) = Inr (xs ! i)"
  by (simp add: py_index_def)

lemma py_index_0: "xs \<noteq> [] \<Longrightarrow> py_index xs 0 = Inr (xs ! 0)"
  by (simp add: py_index_def)

lemma py_index_m1: "xs \<noteq> [] \<Longrightarrow> py_index xs (- 1) = Inr (last xs)"
  by (cases xs rule: rev_cases) (simp_all add: py_index_def nat_diff_distrib')

lemma py_index_m2: "2 \<le> length xs \<Longrightarrow> py_index xs (- 2) = Inr (xs ! (length xs - 2))"
  by (simp add: py_index_def nat_diff_distrib')

lemma py_index_Inr_iff: "(\<exists>y. py_index xs i = Inr y) \<longleftrightarrow> - int (length xs) \<le> i \<and> i < int (length xs)"
  by (auto simp: py_index_def Let_def)

lemma get_module_list_eq:
  "get_module_list s in_chs out_chs ks sts cb =
     (let bs = map (\<lambda>(in_c, out_c, k, stride).
                  cb (spatial_dims s) in_c out_c k stride (norm_name s) (act_name s) (dropout s))
                (zip in_chs (zip out_chs (zip ks sts)))
      in (bs, Inr bs))"
  unfolding get_module_list_def Let_def
  by (rule build_each_new_block) (simp split: prod.splits)

lemma get_module_list_up_eq:
  "get_module_list_up s in_chs out_chs ks sts ops tb =
     (let bs = map (\<lambda>(in_c, out_c, k, stride, output_padding).
                  UnetUpBlock (spatial_dims s) in_c out_c k stride (norm_name s) (act_name s)
                    (dropout s) output_padding tb)
                (zip in_chs (zip out_chs (zip ks (zip sts ops))))
      in (bs, Inr bs))"
  unfolding get_module_list_up_def Let_def
  by (rule build_each_new_block) (simp split: prod.splits)

lemma get_downsamples_total: "snd (get_downsamples s fs) = Inr (fst (get_downsamples s fs))"
  by (simp add: get_downsamples_def get_module_list_eq Let_def)

lemma get_upsamples_total: "snd (get_upsamples s fs) = Inr (fst (get_upsamples s fs))"
  by (simp add: get_upsamples_def get_module_list_up_eq Let_def)

lemma length_get_downsamples:
  "length (fst (get_downsamples s fs)) =
     min (length fs - 2) (min (length (kernel_size s) - 2) (length (strides s) - 2))"
  by (simp add: get_downsamples_def get_module_list_eq Let_def slice_to_m2_def slice_1_to_m1_def numeral_2_eq_2)

lemma length_get_upsamples:
  "length (fst (get_upsamples s fs)) =
     min (length fs - 1) (min (length (kernel_size s) - 1)
       (min (length (strides s) - 1) (length (output_paddings s))))"
  by (simp add: get_upsamples_def get_module_list_up_eq Let_def slice_to_m1_def slice_from_1_def)

lemma get_seg_output_block_eq:
  "0 \<le> idx \<Longrightarrow> idx < int (length fs) \<Longrightarrow>
     get_seg_output_block s fs idx =
       new_block (UnetOutBlock (spatial_dims s) (fs ! nat idx) (seg_out_channels s) (dropout s))"
  by (simp add: get_seg_output_block_def py_index_def)

lemma get_deep_supervision_heads_eq:
  assumes "deep_supr_num s < int (length (strides s)) - 1" "length (strides s) \<le> length fs"
  shows "get_deep_supervision_heads s fs =
     (let bs = map (\<lambda>i. UnetOutBlock (spatial_dims s) (fs ! (i + 1)) (seg_out_channels s) (dropout s))
                 [0 ..< nat (deep_supr_num s)]
      in (bs, Inr bs))"
proof -
  have "build_each (\<lambda>i. get_seg_output_block s fs (int i + 1)) [0 ..< nat (deep_supr_num s)] =
        (map (\<lambda>i. UnetOutBlock (spatial_dims s) (fs ! (i + 1)) (seg_out_channels s) (dropout s))
                 [0 ..< nat (deep_supr_num s)],
         Inr (map (\<lambda>i. UnetOutBlock (spatial_dims s) (fs ! (i + 1)) (seg_out_channels s) (dropout s))
                 [0 ..< nat (deep_supr_num s)]))"
  proof (rule build_each_new_block)
    fix i assume "i \<in> set [0 ..< nat (deep_supr_num s)]"
    with assms have "int i + 1 < int (length fs)" by auto
    then show "get_seg_output_block s fs (int i + 1) =
       new_block (UnetOutBlock (spatial_dims s) (fs ! (i + 1)) (seg_out_channels s) (dropout s))"
      by (simp add: get_seg_output_block_eq nat_add_distrib)
  qed
  with assms(1) show ?thesis by (simp add: get_deep_supervision_heads_def Let_def)
qed

lemma get_deep_supervision_heads_range:
  "snd (get_deep_supervision_heads s fs) = Inr dsh \<Longrightarrow> deep_supr_num s < int (length (strides s)) - 1"
  by (auto simp: get_deep_supervision_heads_def Let_def split: if_splits)

lemma get_deep_supervision_heads_raises:
  "deep_supr_num s \<ge> int (length (strides s)) - 1 \<Longrightarrow>
     get_deep_supervision_heads s fs = ([], Inl DeepSupervisionRangeError)"
  by (simp add: get_deep_supervision_heads_def Let_def lift_def)

subsection \<open>The checks\<close>

lemma check_entries_iff:
  "check_entries sd sts idx ks = Inr () \<longleftrightarrow>
     (\<forall>j < length ks. idx + j < length sts \<and> \<not> wrong_length sd (ks ! j)
        \<and> \<not> wrong_length sd (sts ! (idx + j)))"
proof (induction ks arbitrary: idx)
  case Nil
  then show ?case by simp
next
  case (Cons k ks)
  show ?case
  proof (cases "idx < length sts")
    case False
    then show ?thesis by (auto simp: py_index_def)
  next
    case True
    then have ix: "py_index sts (int idx) = Inr (sts ! idx)"
      by (simp add: py_index_def)
    show ?thesis
      using True by (auto simp: ix Cons.IH less_Suc_eq_0_disj)
  qed
qed

subsection \<open>Composition of the skip layers\<close>

lemma create_skips_Nil:
  "create_skips i [] ups b sh = (if ups = [] then Inr (Bottleneck b) else Inl (StructureMismatch 0 (length ups)))"
  by (simp add: create_skips.simps)

lemma create_skips_Cons:
  "create_skips i (d # dns) ups b sh =
     (if Suc (length dns) \<noteq> length ups then Inl (StructureMismatch (Suc (length dns)) (length ups))
      else case create_skips (1 + i) dns (tl ups) b (if i > 0 \<and> sh \<noteq> [] then tl sh else sh) of
             Inl e \<Rightarrow> Inl e
           | Inr nxt \<Rightarrow> Inr (SkipLayer i d (hd ups) nxt (if i > 0 \<and> sh \<noteq> [] then Some (hd sh) else None)))"
  by (subst create_skips.simps) (auto simp: slice_from_1_def drop_Suc split: sum.splits)

lemma create_skips_mismatch:
  "length dns \<noteq> length ups \<Longrightarrow> create_skips i dns ups b sh = Inl (StructureMismatch (length dns) (length ups))"
  by (subst create_skips.simps) simp

lemma create_skips_succeeds:
  "length dns = length ups \<Longrightarrow> \<exists>sk. create_skips i dns ups b sh = Inr sk"
proof (induction dns arbitrary: i ups sh)
  case Nil
  then show ?case by (simp add: create_skips_Nil)
next
  case (Cons d dns)
  then obtain u ups' where u: "ups = u # ups'" by (cases ups) auto
  with Cons.prems have "length dns = length ups'" by simp
  from Cons.IH [OF this] obtain sk where
    "create_skips (1 + i) dns ups' b (if i > 0 \<and> sh \<noteq> [] then tl sh else sh) = Inr sk"
    by blast
  then show ?case using Cons.prems u by (simp add: create_skips_Cons)
qed

lemma create_skips_Inr_length:
  "create_skips i dns ups b sh = Inr sk \<Longrightarrow> length dns = length ups"
  using create_skips_mismatch [of dns ups i b sh] by (cases "length dns = length ups") auto

lemma create_skips_structure:
  "create_skips i dns ups b sh = Inr sk \<Longrightarrow>
     chain_length sk = length dns \<and> chain_leaf sk = b \<and>
     chain_downsamples sk = dns \<and> chain_upsamples sk = ups \<and>
     chain_indices sk = map (\<lambda>k. i + int k) [0 ..< length dns]"
proof (induction dns arbitrary: i ups sh sk)
  case Nil
  then show ?case by (auto simp: create_skips_Nil split: if_splits)
next
  case (Cons d dns)
  from Cons.prems have len: "Suc (length dns) = length ups"
    using create_skips_Inr_length by fastforce
  then obtain u ups' where u: "ups = u # ups'" by (cases ups) auto
  from Cons.prems len u obtain nxt where
    nxt: "create_skips (1 + i) dns ups' b (if i > 0 \<and> sh \<noteq> [] then tl sh else sh) = Inr nxt"
    and sk: "sk = SkipLayer i d u nxt (if i > 0 \<and> sh \<noteq> [] then Some (hd sh) else None)"
    by (auto simp: create_skips_Cons split: sum.splits)
  have "map (\<lambda>k. i + int k) [0 ..< Suc (length dns)] = i # map (\<lambda>k. 1 + i + int k) [0 ..< length dns]"
    by (simp add: upt_conv_Cons map_Suc_upt [symmetric] del: upt_Suc)
  with Cons.IH [OF nxt] show ?case by (simp add: sk u)
qed

lemma create_skips_heads_pos:
  "create_skips i dns ups b sh = Inr sk \<Longrightarrow> 0 < i \<Longrightarrow>
     chain_heads sk = map Some (take (length dns) sh) @ replicate (length dns - length sh) None"
proof (induction dns arbitrary: i ups sh sk)
  case Nil
  then show ?case by (auto simp: create_skips_Nil split: if_splits)
next
  case (Cons d dns)
  from Cons.prems have len: "Suc (length dns) = length ups"
    using create_skips_Inr_length by fastforce
  then obtain u ups' where u: "ups = u # ups'" by (cases ups) auto
  show ?case
  proof (cases sh)
    case Nil
    with Cons.prems len u obtain nxt where
      nxt: "create_skips (1 + i) dns ups' b [] = Inr nxt"
      and sk: "sk = SkipLayer i d u nxt None"
      by (auto simp: create_skips_Cons split: sum.splits)
    from Cons.IH [OF nxt] Cons.prems(2) show ?thesis by (simp add: sk Nil replicate_Suc [symmetric] del: replicate_Suc)
  next
    case (Cons h hs)
    with Cons.prems len u obtain nxt where
      nxt: "create_skips (1 + i) dns ups' b hs = Inr nxt"
      and sk: "sk = SkipLayer i d u nxt (Some h)"
      by (auto simp: create_skips_Cons split: sum.splits)
    from Cons.IH [OF nxt] Cons.prems(2) show ?thesis by (simp add: sk Cons)
  qed
qed

subsection \<open>When construction succeeds\<close>

lemma init_Inr_iff:
  "snd (DynUNet_init ops s) = Inr net \<longleftrightarrow>
     (\<exists>fs inp dns bott ups cls seg dsh skips.
        check_filters s (init_filters s) = Inr fs \<and>
        snd (get_input_block s fs) = Inr inp \<and>
        snd (get_downsamples s fs) = Inr dns \<and>
        snd (get_bottleneck s fs) = Inr bott \<and>
        snd (get_upsamples s fs) = Inr ups \<and>
        snd (get_cls_output_block s fs (- 1)) = Inr cls \<and>
        snd (get_seg_output_block s fs 0) = Inr seg \<and>
        snd (get_deep_supervision_heads s fs) = Inr dsh \<and>
        check_kernel_stride s = Inr () \<and>
        create_skips 0 (inp # dns) (rev ups) bott dsh = Inr skips \<and>
        net = \<lparr> self_filters = fs, input_block = inp, downsamples = dns, bottleneck_block = bott,
           upsamples = ups, cls_output_block = cls, seg_output_block = seg,
           self_deep_supr_num = deep_supr_num s,
           heads = replicate (nat (deep_supr_num s)) (empty1 ops),
           deep_supervision_heads = dsh, skip_layers = skips, training = True \<rparr>)"
  unfolding DynUNet_init_def snd_and_then_Inr snd_lift snd_ret
  by auto

lemma check_filters_Inr_iff:
  "check_filters s fs0 = Inr fs \<longleftrightarrow> length (strides s) \<le> length fs0 \<and> fs = take (length (strides s)) fs0"
  by (auto simp: check_filters_def)

lemma check_kernel_stride_lengths:
  "check_kernel_stride s = Inr () \<Longrightarrow> length (kernel_size s) = length (strides s) \<and> 3 \<le> length (strides s)"
  by (auto simp: check_kernel_stride_def split: if_splits)

lemma get_input_block_total:
  "fs \<noteq> [] \<Longrightarrow> kernel_size s \<noteq> [] \<Longrightarrow> strides s \<noteq> [] \<Longrightarrow>
     get_input_block s fs =
       new_block (conv_block s (spatial_dims s) (in_channels s) (fs ! 0) (kernel_size s ! 0)
                    (strides s ! 0) (norm_name s) (act_name s) (dropout s))"
  by (simp add: get_input_block_def py_index_0)

lemma get_bottleneck_total:
  "2 \<le> length fs \<Longrightarrow> kernel_size s \<noteq> [] \<Longrightarrow> strides s \<noteq> [] \<Longrightarrow>
     get_bottleneck s fs =
       new_block (conv_block s (spatial_dims s) (fs ! (length fs - 2)) (last fs)
                    (last (kernel_size s)) (last (strides s)) (norm_name s) (act_name s) (dropout s))"
proof -
  assume a: "2 \<le> length fs" "kernel_size s \<noteq> []" "strides s \<noteq> []"
  then have "fs \<noteq> []" by auto
  with a show ?thesis by (simp add: get_bottleneck_def py_index_m1 py_index_m2)
qed

lemma get_cls_output_block_total:
  "fs \<noteq> [] \<Longrightarrow>
     get_cls_output_block s fs (- 1) =
       new_block (UNetClsOutBlock (spatial_dims s) (last fs) (cls_out_channels s) (pool_type s) (pool_fmap s))"
  by (simp add: get_cls_output_block_def py_index_m1)

lemma get_seg_output_block_0:
  "fs \<noteq> [] \<Longrightarrow>
     get_seg_output_block s fs 0 =
       new_block (UnetOutBlock (spatial_dims s) (fs ! 0) (seg_out_channels s) (dropout s))"
  by (simp add: get_seg_output_block_def py_index_0)

lemma init_succeeds_iff:
  "(\<exists>net. snd (DynUNet_init ops s) = Inr net) \<longleftrightarrow>
     length (strides s) \<le> length (init_filters s) \<and>
     deep_supr_num s < int (length (strides s)) - 1 \<and>
     check_kernel_stride s = Inr () \<and>
     length (strides s) - 1 \<le> length (output_paddings s)"
    (is "?L \<longleftrightarrow> ?R")
proof
  assume ?L
  then obtain net fs inp dns bott ups dsh skips where
    fs: "check_filters s (init_filters s) = Inr fs" and
    dns: "snd (get_downsamples s fs) = Inr dns" and
    ups: "snd (get_upsamples s fs) = Inr ups" and
    dsh: "snd (get_deep_supervision_heads s fs) = Inr dsh" and
    cks: "check_kernel_stride s = Inr ()" and
    sk: "create_skips 0 (inp # dns) (rev ups) bott dsh = Inr skips"
    unfolding init_Inr_iff by blast
  from fs have lf: "length (strides s) \<le> length (init_filters s)" "length fs = length (strides s)"
    by (auto simp: check_filters_Inr_iff)
  note len = check_kernel_stride_lengths [OF cks]
  from dns have "dns = fst (get_downsamples s fs)" by (simp add: get_downsamples_total)
  then have ld: "length dns = length (strides s) - 2"
    using len lf by (simp add: length_get_downsamples)
  from ups have "ups = fst (get_upsamples s fs)" by (simp add: get_upsamples_total)
  then have lu: "length ups = min (length (strides s) - 1) (length (output_paddings s))"
    using len lf by (simp add: length_get_upsamples)
  from create_skips_Inr_length [OF sk] have "Suc (length dns) = length ups" by simp
  with ld lu len have "length (strides s) - 1 \<le> length (output_paddings s)" by linarith
  with lf cks get_deep_supervision_heads_range [OF dsh] show ?R by simp
next
  assume R: ?R
  define fs where "fs = take (length (strides s)) (init_filters s)"
  from R have cf: "check_filters s (init_filters s) = Inr fs"
    by (simp add: check_filters_Inr_iff fs_def)
  from R have lf: "length fs = length (strides s)" by (simp add: fs_def)
  from R have len: "length (kernel_size s) = length (strides s)" "3 \<le> length (strides s)"
    using check_kernel_stride_lengths by blast+
  from lf len have ne: "fs \<noteq> []" "kernel_size s \<noteq> []" "strides s \<noteq> []" "2 \<le> length fs"
    by auto
  define dns where "dns = fst (get_downsamples s fs)"
  define ups where "ups = fst (get_upsamples s fs)"
  have ld: "length dns = length (strides s) - 2"
    using len lf by (simp add: dns_def length_get_downsamples)
  have lu: "length ups = length (strides s) - 1"
    using len lf R by (simp add: ups_def length_get_upsamples)
  obtain inp where inp: "snd (get_input_block s fs) = Inr inp"
    using ne by (simp add: get_input_block_total)
  obtain bott where bott: "snd (get_bottleneck s fs) = Inr bott"
    using ne by (simp add: get_bottleneck_total)
  obtain cls where cls: "snd (get_cls_output_block s fs (- 1)) = Inr cls"
    using ne by (simp add: get_cls_output_block_total)
  obtain seg where seg: "snd (get_seg_output_block s fs 0) = Inr seg"
    using ne by (simp add: get_seg_output_block_0)
  obtain dsh where dsh: "snd (get_deep_supervision_heads s fs) = Inr dsh"
    using R lf by (simp add: get_deep_supervision_heads_eq Let_def)
  have "length (inp # dns) = length (rev ups)" using ld lu len by simp
  from create_skips_succeeds [OF this] obtain skips where
    sk: "create_skips 0 (inp # dns) (rev ups) bott dsh = Inr skips" by blast
  show ?L
    unfolding init_Inr_iff
    using cf inp bott cls seg dsh sk R
    by (auto simp: dns_def ups_def get_downsamples_total get_upsamples_total)
qed

lemma wrong_length_iff: "wrong_length sd k \<longleftrightarrow> (\<exists>t. k = Tuple t \<and> int (length t) \<noteq> sd)"
  by (cases k) (simp_all add: wrong_length_def)

lemma check_kernel_stride_iff:
  "check_kernel_stride s = Inr () \<longleftrightarrow>
     length (kernel_size s) = length (strides s) \<and> 3 \<le> length (kernel_size s) \<and>
     list_all (\<lambda>k. \<not> wrong_length (spatial_dims s) k) (kernel_size s) \<and>
     list_all (\<lambda>k. \<not> wrong_length (spatial_dims s) k) (strides s)"
  by (auto simp: check_kernel_stride_def check_entries_iff list_all_length)

lemma spec_invariants_checks:
  "spec_invariants s \<Longrightarrow> check_kernel_stride s = Inr ()"
  by (simp add: spec_invariants_def check_kernel_stride_iff)

lemma init_Inl_or_Inr: "(\<exists>e. snd (DynUNet_init ops s) = Inl e) \<or> (\<exists>net. snd (DynUNet_init ops s) = Inr net)"
  by (cases "snd (DynUNet_init ops s)") auto

lemma length_default_filters [simp]: "length (default_filters s) = length (strides s)"
  by (simp add: default_filters_def)


subsection \<open>The structure of a constructed network\<close>

lemma create_skips_heads_0:
  assumes "create_skips 0 (d # dns) ups b sh = Inr sk"
  shows "chain_heads sk = None # map Some (take (length dns) sh) @ replicate (length dns - length sh) None"
proof -
  from assms have len: "Suc (length dns) = length ups"
    using create_skips_Inr_length by fastforce
  with assms obtain nxt where
    nxt: "create_skips 1 dns (tl ups) b sh = Inr nxt"
    and sk: "sk = SkipLayer 0 d (hd ups) nxt None"
    by (auto simp: create_skips_Cons split: sum.splits)
  from create_skips_heads_pos [OF nxt] show ?thesis by (simp add: sk)
qed

lemma init_structure:
  assumes "snd (DynUNet_init ops s) = Inr net"
  shows "length (downsamples net) = length (strides s) - 2"
    and "length (upsamples net) = length (strides s) - 1"
    and "chain_length (skip_layers net) = length (strides s) - 1"
    and "chain_leaf (skip_layers net) = bottleneck_block net"
    and "chain_downsamples (skip_layers net) = input_block net # downsamples net"
    and "chain_upsamples (skip_layers net) = rev (upsamples net)"
    and "chain_indices (skip_layers net) = map int [0 ..< length (strides s) - 1]"
    and "deep_supr_num s < int (length (strides s)) - 1"
    and "length (heads net) = nat (deep_supr_num s)"
    and "deep_supervision_heads net =
           map (\<lambda>i. UnetOutBlock (spatial_dims s) (self_filters net ! (i + 1)) (seg_out_channels s) (dropout s))
             [0 ..< nat (deep_supr_num s)]"
    and "chain_heads (skip_layers net) =
           None # map Some (deep_supervision_heads net) @
             replicate (length (strides s) - 2 - nat (deep_supr_num s)) None"
proof -
  from assms obtain fs inp dns bott ups cls seg dsh skips where
    fs: "check_filters s (init_filters s) = Inr fs" and
    dns: "snd (get_downsamples s fs) = Inr dns" and
    ups: "snd (get_upsamples s fs) = Inr ups" and
    dsh: "snd (get_deep_supervision_heads s fs) = Inr dsh" and
    cks: "check_kernel_stride s = Inr ()" and
    sk: "create_skips 0 (inp # dns) (rev ups) bott dsh = Inr skips" and
    net: "net = \<lparr> self_filters = fs, input_block = inp, downsamples = dns, bottleneck_block = bott,
           upsamples = ups, cls_output_block = cls, seg_output_block = seg,
           self_deep_supr_num = deep_supr_num s,
           heads = replicate (nat (deep_supr_num s)) (empty1 ops),
           deep_supervision_heads = dsh, skip_layers = skips, training = True \<rparr>"
    unfolding init_Inr_iff by blast
  from fs have lf: "length fs = length (strides s)"
    by (auto simp: check_filters_Inr_iff)
  note len = check_kernel_stride_lengths [OF cks]
  from dns have "dns = fst (get_downsamples s fs)" by (simp add: get_downsamples_total)
  then have ld: "length dns = length (strides s) - 2"
    using len lf by (simp add: length_get_downsamples)
  have n1: "Suc (length dns) = length (strides s) - 1" using ld len by arith
  from create_skips_Inr_length [OF sk] have lu: "length ups = length (strides s) - 1"
    using n1 by simp
  note st = create_skips_structure [OF sk]
  have d: "deep_supr_num s < int (length (strides s)) - 1"
    by (rule get_deep_supervision_heads_range [OF dsh])
  from dsh have dsh_eq: "dsh = map (\<lambda>i. UnetOutBlock (spatial_dims s) (fs ! (i + 1)) (seg_out_channels s) (dropout s))
             [0 ..< nat (deep_supr_num s)]"
    using d lf by (simp add: get_deep_supervision_heads_eq Let_def)
  then have ldsh: "length dsh = nat (deep_supr_num s)" by simp
  with d ld have le: "length dsh \<le> length dns" by linarith
  show "length (downsamples net) = length (strides s) - 2" by (simp add: net ld)
  show "length (upsamples net) = length (strides s) - 1" by (simp add: net lu)
  show "chain_length (skip_layers net) = length (strides s) - 1" using st n1 by (simp add: net)
  show "chain_leaf (skip_layers net) = bottleneck_block net" using st by (simp add: net)
  show "chain_downsamples (skip_layers net) = input_block net # downsamples net" using st by (simp add: net)
  show "chain_upsamples (skip_layers net) = rev (upsamples net)" using st by (simp add: net)
  from n1 show "chain_indices (skip_layers net) = map int [0 ..< length (strides s) - 1]"
    using st by (simp add: net del: upt_Suc)
  show "deep_supr_num s < int (length (strides s)) - 1" by (rule d)
  show "length (heads net) = nat (deep_supr_num s)" by (simp add: net)
  show "deep_supervision_heads net =
           map (\<lambda>i. UnetOutBlock (spatial_dims s) (self_filters net ! (i + 1)) (seg_out_channels s) (dropout s))
             [0 ..< nat (deep_supr_num s)]" using dsh_eq by (simp add: net)
  show "chain_heads (skip_layers net) =
           None # map Some (deep_supervision_heads net) @
             replicate (length (strides s) - 2 - nat (deep_supr_num s)) None"
    using create_skips_heads_0 [OF sk] le ld ldsh by (simp add: net)
qed

lemma spec_invariants_succeeds:
  assumes "spec_invariants s" "length (strides s) - 1 \<le> length (output_paddings s)"
  shows "\<exists>net. snd (DynUNet_init ops s) = Inr net"
  using assms spec_invariants_checks [OF assms(1)]
  by (simp add: init_succeeds_iff spec_invariants_def)

lemma example_spec_invariants: "spec_invariants example_spec"
  by (simp add: spec_invariants_def example_spec_def wrong_length_def init_filters_def)

lemma snd_and_then:
  "snd (and_then m f) = (case snd m of Inl e \<Rightarrow> Inl e | Inr x \<Rightarrow> snd (f x))"
  by (simp add: and_then_def split: sum.splits)

lemma init_mismatch:
  assumes "length (strides s) \<le> length (init_filters s)"
    and "deep_supr_num s < int (length (strides s)) - 1"
    and "check_kernel_stride s = Inr ()"
    and "length (output_paddings s) < length (strides s) - 1"
  shows "snd (DynUNet_init ops s) =
           Inl (StructureMismatch (length (strides s) - 1) (length (output_paddings s)))"
proof -
  define fs where "fs = take (length (strides s)) (init_filters s)"
  from assms have cf: "check_filters s (init_filters s) = Inr fs"
    by (simp add: check_filters_Inr_iff fs_def)
  from assms have lf: "length fs = length (strides s)" by (simp add: fs_def)
  note len = check_kernel_stride_lengths [OF assms(3)]
  from lf len have ne: "fs \<noteq> []" "kernel_size s \<noteq> []" "strides s \<noteq> []" "2 \<le> length fs"
    by auto
  define dns where "dns = fst (get_downsamples s fs)"
  define ups where "ups = fst (get_upsamples s fs)"
  have ld: "Suc (length dns) = length (strides s) - 1"
    using len lf by (simp add: dns_def length_get_downsamples) arith
  have lu: "length ups = length (output_paddings s)"
    using len lf assms(4) by (simp add: ups_def length_get_upsamples)
  obtain inp where inp: "snd (get_input_block s fs) = Inr inp"
    using ne by (simp add: get_input_block_total)
  obtain bott where bott: "snd (get_bottleneck s fs) = Inr bott"
    using ne by (simp add: get_bottleneck_total)
  obtain cls where cls: "snd (get_cls_output_block s fs (- 1)) = Inr cls"
    using ne by (simp add: get_cls_output_block_total)
  obtain seg where seg: "snd (get_seg_output_block s fs 0) = Inr seg"
    using ne by (simp add: get_seg_output_block_0)
  obtain dsh where dsh: "snd (get_deep_supervision_heads s fs) = Inr dsh"
    using assms(2) lf by (simp add: get_deep_supervision_heads_eq Let_def)
  have d: "snd (get_downsamples s fs) = Inr dns" by (simp add: dns_def get_downsamples_total)
  have u: "snd (get_upsamples s fs) = Inr ups" by (simp add: ups_def get_upsamples_total)
  have "length (inp # dns) \<noteq> length (rev ups)" using ld lu assms(4) by simp
  from create_skips_mismatch [OF this]
  have sk: "create_skips 0 (inp # dns) (rev ups) bott dsh =
              Inl (StructureMismatch (length (strides s) - 1) (length (output_paddings s)))"
    using ld lu by simp
  show ?thesis
    unfolding DynUNet_init_def
    by (simp add: snd_and_then cf inp d bott u cls seg dsh assms(3) sk)
qed

lemma get_input_block_cases:
  "get_input_block s fs = ([], Inl IndexError) \<or> (\<exists>b. get_input_block s fs = ([b], Inr b))"
  by (auto simp: get_input_block_def py_index_def new_block_def)

section \<open>The claims\<close>

text \<open>C7. When \<^verbatim>\<open>filters\<close> is not supplied, the derived filter counts are
  \<open>filters[i] = min(2^(5+i), cap)\<close> for \<open>i\<close> in \<open>0..len(strides)-1\<close>, with \<open>cap = 320\<close>
  when \<^verbatim>\<open>spatial_dims == 3\<close> and 512 otherwise; \<^verbatim>\<open>check_filters\<close> accepts them
  unchanged, they are the \<^verbatim>\<open>self.filters\<close> of the constructed network, and for
  \<^verbatim>\<open>spatial_dims=3\<close> and four strides they are \<open>[32, 64, 128, 256]\<close>.\<close>

theorem derived_filters:
  assumes "filters s = None"
  shows "check_filters s (init_filters s) = Inr (init_filters s) \<and>
         length (init_filters s) = length (strides s) \<and>
         (\<forall>i < length (strides s).
            init_filters s ! i = min (2 ^ (5 + i)) (if spatial_dims s = 3 then 320 else 512)) \<and>
         (spatial_dims s = 3 \<and> length (strides s) = 4 \<longrightarrow> init_filters s = [32, 64, 128, 256]) \<and>
         (\<forall>net. snd (DynUNet_init ops s) = Inr net \<longrightarrow> self_filters net = init_filters s)"
proof -
  have eq: "init_filters s = default_filters s" using assms by (simp add: init_filters_def)
  have 1: "check_filters s (init_filters s) = Inr (init_filters s)"
    by (simp add: eq check_filters_def)
  have 2: "\<forall>i < length (strides s).
            init_filters s ! i = min (2 ^ (5 + i)) (if spatial_dims s = 3 then 320 else 512)"
    by (simp add: eq default_filters_def)
  have 3: "spatial_dims s = 3 \<and> length (strides s) = 4 \<longrightarrow> init_filters s = [32, 64, 128, 256]"
    by (simp add: eq default_filters_def upt_rec numeral_eq_Suc)
  have 4: "\<forall>net. snd (DynUNet_init ops s) = Inr net \<longrightarrow> self_filters net = init_filters s"
    using 1 by (auto simp: init_Inr_iff)
  from 1 2 3 4 show ?thesis by (simp add: eq)
qed

theorem derived_filters_witness:
  "filters example_spec = None \<and> init_filters example_spec = [32, 64, 128, 256] \<and>
   check_filters example_spec (init_filters example_spec) = Inr [32, 64, 128, 256]"
proof -
  have h: "filters example_spec = None" by (simp add: example_spec_def)
  have "spatial_dims example_spec = 3 \<and> length (strides example_spec) = 4"
    by (simp add: example_spec_def)
  with derived_filters [OF h, of shape_model] h show ?thesis by auto
qed


text \<open>C8. \<^verbatim>\<open>check_kernel_stride\<close> passes exactly when kernel_size and strides have the
  same length, at least 3, and every entry of either that is not a scalar has
  \<^verbatim>\<open>spatial_dims\<close> components (a scalar entry is never rejected); and whenever it does not
  pass, construction raises.\<close>

theorem kernel_stride_validation:
  "(check_kernel_stride s = Inr () \<longleftrightarrow>
      length (kernel_size s) = length (strides s) \<and> 3 \<le> length (kernel_size s) \<and>
      (\<forall>t. Tuple t \<in> set (kernel_size s) \<longrightarrow> int (length t) = spatial_dims s) \<and>
      (\<forall>t. Tuple t \<in> set (strides s) \<longrightarrow> int (length t) = spatial_dims s)) \<and>
   (check_kernel_stride s \<noteq> Inr () \<longrightarrow> (\<exists>e. snd (DynUNet_init ops s) = Inl e))"
proof -
  have "check_kernel_stride s \<noteq> Inr () \<longrightarrow> (\<exists>e. snd (DynUNet_init ops s) = Inl e)"
    using init_succeeds_iff [of ops s] init_Inl_or_Inr [of ops s] by auto
  moreover have "check_kernel_stride s = Inr () \<longleftrightarrow>
      length (kernel_size s) = length (strides s) \<and> 3 \<le> length (kernel_size s) \<and>
      (\<forall>t. Tuple t \<in> set (kernel_size s) \<longrightarrow> int (length t) = spatial_dims s) \<and>
      (\<forall>t. Tuple t \<in> set (strides s) \<longrightarrow> int (length t) = spatial_dims s)"
    unfolding check_kernel_stride_iff list_all_iff wrong_length_iff by auto
  ultimately show ?thesis by blast
qed

theorem kernel_stride_validation_witness:
  "check_kernel_stride example_spec = Inr () \<and>
   (\<exists>e. snd (DynUNet_init shape_model short_kernel_spec) = Inl e)"
proof -
  have "check_kernel_stride example_spec = Inr ()"
    using kernel_stride_validation [of example_spec shape_model]
    by (auto simp: example_spec_def)
  moreover have "check_kernel_stride short_kernel_spec \<noteq> Inr ()"
    using kernel_stride_validation [of short_kernel_spec shape_model]
    by (simp add: short_kernel_spec_def example_spec_def)
  then have "\<exists>e. snd (DynUNet_init shape_model short_kernel_spec) = Inl e"
    using kernel_stride_validation [of short_kernel_spec shape_model] by blast
  ultimately show ?thesis by blast
qed


text \<open>C1. For every spec that satisfies the invariants (kernel_size and strides of equal
  length at least 3 with entries of the right shape, enough filters,
  \<open>0 < deep_supr_num < len(strides) - 1\<close>) and has \<open>len(strides) - 1\<close> output paddings,
  construction succeeds with \<open>len(strides) - 2\<close> downsample blocks and \<open>len(strides) - 1\<close>
  upsample blocks, and the chain of skip layers has \<open>len(strides) - 1\<close> skip layers and ends
  in the bottleneck block.\<close>

theorem construction_counts:
  assumes "spec_invariants s" and "length (output_paddings s) = length (strides s) - 1"
  shows "\<exists>net. snd (DynUNet_init ops s) = Inr net \<and>
           length (downsamples net) = length (strides s) - 2 \<and>
           length (upsamples net) = length (strides s) - 1 \<and>
           chain_length (skip_layers net) = length (strides s) - 1 \<and>
           chain_leaf (skip_layers net) = bottleneck_block net"
proof -
  from assms obtain net where net: "snd (DynUNet_init ops s) = Inr net"
    using spec_invariants_succeeds [of s ops] by auto
  from init_structure(1-4) [OF net] net show ?thesis by blast
qed

theorem construction_counts_witness:
  "spec_invariants example_spec \<and> length (output_paddings example_spec) = length (strides example_spec) - 1 \<and>
   (\<exists>net. snd (DynUNet_init shape_model example_spec) = Inr net \<and>
           length (downsamples net) = 2 \<and> length (upsamples net) = 3 \<and>
           chain_length (skip_layers net) = 3 \<and>
           chain_leaf (skip_layers net) = bottleneck_block net)"
proof -
  have h1: "spec_invariants example_spec" by (rule example_spec_invariants)
  have h2: "length (output_paddings example_spec) = length (strides example_spec) - 1"
    by (simp add: example_spec_def)
  have "length (strides example_spec) = 4" by (simp add: example_spec_def)
  with construction_counts [OF h1 h2, of shape_model] h1 h2 show ?thesis by simp
qed

text \<open>C3, as the code has it. Only \<^verbatim>\<open>check_filters\<close> runs before any block is built:
  when it fails, no block has been instantiated. Every other failure of the constructor
  that is not an \<open>IndexError\<close> (the range check of \<^verbatim>\<open>deep_supr_num\<close>,
  \<^verbatim>\<open>check_kernel_stride\<close>, the length test of \<^verbatim>\<open>create_skips\<close>) is raised after
  blocks have been instantiated.\<close>

theorem check_order:
  "(\<forall>e. check_filters s (init_filters s) = Inl e \<longrightarrow> DynUNet_init ops s = ([], Inl e)) \<and>
   (\<forall>e. snd (DynUNet_init ops s) = Inl e \<and> e \<noteq> InsufficientFilters \<and> e \<noteq> IndexError \<longrightarrow>
        fst (DynUNet_init ops s) \<noteq> [])"
proof (intro conjI allI impI)
  fix e assume "check_filters s (init_filters s) = Inl e"
  then show "DynUNet_init ops s = ([], Inl e)" by (simp add: DynUNet_init_def)
next
  fix e assume a: "snd (DynUNet_init ops s) = Inl e \<and> e \<noteq> InsufficientFilters \<and> e \<noteq> IndexError"
  show "fst (DynUNet_init ops s) \<noteq> []"
  proof (cases "check_filters s (init_filters s)")
    case (Inl e')
    then have "e' = InsufficientFilters" by (auto simp: check_filters_def split: if_splits)
    with Inl a show ?thesis by (auto simp: DynUNet_init_def)
  next
    case (Inr fs)
    from get_input_block_cases [of s fs] show ?thesis
    proof
      assume "get_input_block s fs = ([], Inl IndexError)"
      with Inr a show ?thesis by (auto simp: DynUNet_init_def)
    next
      assume "\<exists>b. get_input_block s fs = ([b], Inr b)"
      then obtain b where "get_input_block s fs = ([b], Inr b)" ..
      with Inr show ?thesis by (simp add: DynUNet_init_def)
    qed
  qed
qed

theorem check_order_witness:
  "snd (DynUNet_init shape_model short_kernel_spec) = Inl LengthMismatch \<and>
   LengthMismatch \<noteq> InsufficientFilters \<and> LengthMismatch \<noteq> IndexError \<and>
   fst (DynUNet_init shape_model short_kernel_spec) \<noteq> []"
proof -
  have "snd (DynUNet_init shape_model short_kernel_spec) = Inl LengthMismatch" by code_simp
  with check_order [of short_kernel_spec shape_model] show ?thesis by simp
qed

text \<open>C3 as stated fails: with a kernel_size of two entries the constructor raises in
  \<^verbatim>\<open>check_kernel_stride\<close> after seven blocks have been instantiated.\<close>

theorem kernel_check_after_blocks:
  "snd (DynUNet_init shape_model short_kernel_spec) = Inl LengthMismatch \<and>
   length (fst (DynUNet_init shape_model short_kernel_spec)) = 7"
  by code_simp

text \<open>C4 at \<^verbatim>\<open>deep_supr_num=0\<close>: construction succeeds, with an empty head buffer and no
  supervision head.\<close>

theorem zero_deep_supr_num_constructs:
  "\<exists>net. snd (DynUNet_init shape_model zero_heads_spec) = Inr net \<and>
         heads net = [] \<and> deep_supervision_heads net = []"
proof -
  have "case snd (DynUNet_init shape_model zero_heads_spec) of
          Inl e \<Rightarrow> False
        | Inr net \<Rightarrow> heads net = [] \<and> deep_supervision_heads net = []"
    by code_simp
  then show ?thesis by (auto split: sum.splits)
qed

text \<open>C5, as the code has it. For a spec that satisfies the invariants, construction raises
  the \<open>StructureMismatch\<close> of \<^verbatim>\<open>create_skips\<close> exactly when there are fewer than
  \<open>len(strides) - 1\<close> output paddings.\<close>

theorem structure_mismatch_iff:
  assumes "spec_invariants s"
  shows "(\<exists>m n. snd (DynUNet_init ops s) = Inl (StructureMismatch m n)) \<longleftrightarrow>
           length (output_paddings s) < length (strides s) - 1"
proof
  assume "\<exists>m n. snd (DynUNet_init ops s) = Inl (StructureMismatch m n)"
  then have no: "\<not> (\<exists>net. snd (DynUNet_init ops s) = Inr net)" by auto
  show "length (output_paddings s) < length (strides s) - 1"
  proof (rule ccontr)
    assume "\<not> length (output_paddings s) < length (strides s) - 1"
    then have "length (strides s) - 1 \<le> length (output_paddings s)" by simp
    from spec_invariants_succeeds [OF assms this, of ops] no show False by blast
  qed
next
  assume "length (output_paddings s) < length (strides s) - 1"
  with assms spec_invariants_checks [OF assms] show "\<exists>m n. snd (DynUNet_init ops s) = Inl (StructureMismatch m n)"
    using init_mismatch [of s ops] by (simp add: spec_invariants_def)
qed

theorem structure_mismatch_iff_witness:
  "spec_invariants example_spec \<and>
   \<not> length (output_paddings example_spec) < length (strides example_spec) - 1 \<and>
   \<not> (\<exists>m n. snd (DynUNet_init shape_model example_spec) = Inl (StructureMismatch m n))"
proof -
  have h: "spec_invariants example_spec" by (rule example_spec_invariants)
  have "\<not> length (output_paddings example_spec) < length (strides example_spec) - 1"
    by (simp add: example_spec_def)
  with structure_mismatch_iff [OF h, of shape_model] h show ?thesis by simp
qed

text \<open>C5 as stated fails: the example spec without output paddings satisfies the invariants
  and \<^verbatim>\<open>create_skips\<close> raises, with three downsample and no upsample stages.\<close>

theorem structure_mismatch_reachable:
  "spec_invariants no_padding_spec \<and>
   snd (DynUNet_init shape_model no_padding_spec) = Inl (StructureMismatch 3 0)"
  by code_simp

end
